theory Spec2Isabelle
  imports Main
begin

section \<open>Test runner: the total summary of \<open>reportTests\<close> (src/testRunner.ts)\<close>

subsection \<open>JavaScript values\<close>












subsection \<open>The results\<close>







subsection \<open>The loop over the assertions (lines 23-65)\<close>





subsection \<open>The sum of the summaries (lines 66-70)\<close>

















subsection \<open>Example inputs of the test runner\<close>












section \<open>The document mirror (src/doc-mirror/index.ts)\<close>

subsection \<open>Values of the host editor\<close>

text \<open>
  The host (vscode) is not part of the repository. Its values are modelled as the
  source reads them: a position is a line and a character, a range and a selection are
  two positions, a document has an identity (the key of the registry), a language id,
  an end-of-line style and a text. Offsets and depths are JavaScript numbers, here
  whole numbers.
\<close>

datatype Position = Position (line: nat) (character: nat)

datatype Range = Range (range_start: Position) (range_end: Position)

datatype Selection = Selection (anchor: Position) (active: Position)

datatype EndOfLine = LF | CRLF

record TextDocument =
  ident :: nat
  uri :: string
  languageId :: string
  eol :: EndOfLine
  getText :: string

text \<open>
  The active text editor: its document, its selection, and the ranges that
  \<open>revealRange\<close> was called with, in call order.
\<close>

record TextEditor =
  editor_document :: TextDocument
  editor_selection :: Selection
  revealed :: "Range list"

text \<open>
  The calls that the callback of \<open>editor.edit\<close> makes on its \<open>TextEditorEdit\<close> builder,
  in call order.
\<close>

datatype builder_call =
    BuilderInsert Position string
  | BuilderReplace Range string
  | BuilderDelete Range

type_synonym TextEditorEdit = "builder_call list"

datatype TextEdit = TextEdit_insert Position string

type_synonym WorkspaceEdit = "(string \<times> TextEdit list) list"

text \<open>
  The functions of the host that the mirror calls. They are parameters of the model:
  \<open>positionAt\<close> and \<open>offsetAt\<close> of a document, \<open>editor.edit\<close> (given the builder calls and
  the undo options \<open>(undoStopBefore, undoStopAfter)\<close>, the host returns the editor after
  the transaction and whether it committed), and \<open>workspace.applyEdit\<close>.
\<close>

record vscode =
  positionAt :: "TextDocument \<Rightarrow> int \<Rightarrow> Position"
  offsetAt :: "TextDocument \<Rightarrow> Position \<Rightarrow> int"
  editor_edit :: "TextEditorEdit \<Rightarrow> bool \<times> bool \<Rightarrow> TextEditor \<Rightarrow> TextEditor \<times> bool"
  applyEdit :: "WorkspaceEdit \<Rightarrow> TextEditor \<Rightarrow> TextEditor \<times> bool"

text \<open>How a promise settles.\<close>

datatype 'a promise = Resolved 'a | Rejected

text \<open>
  \<open>formatter.formatPosition(editor, onType, {"format-depth": n})\<close> of calva-fmt, which is
  not in the sources at hand: a parameter that, given the editor, the flag and the depth,
  returns the editor afterwards and how its promise settles.
\<close>

type_synonym formatter = "TextEditor \<Rightarrow> bool \<Rightarrow> int \<Rightarrow> TextEditor \<times> bool promise"

subsection \<open>Edits and options (cursor-doc/model)\<close>

text \<open>
  Modelled from the spec: the class \<open>ModelEditSelection\<close> of cursor-doc/model is not in
  the sources at hand. Section 3 of the spec: a selection range is an anchor offset and
  an active offset.
\<close>

datatype ModelEditSelection = ModelEditSelection (anchor_offset: int) (active_offset: int)

text \<open>
  Modelled from the spec: the class \<open>ModelEdit\<close> of cursor-doc/model is not in the sources
  at hand. Section 3 of the spec: a logical edit is a tagged variant, Insert (offset,
  text), Replace (startOffset, endOffset, text) or Delete (offset, count), each with
  the optional oldSelection and newSelection. The constructors carry the discriminants
  that the source switches on, \<open>insertString\<close>, \<open>changeRange\<close> and \<open>deleteRange\<close>, and
  their arguments in the order of the parameters of \<open>insertEdit\<close>, \<open>replaceEdit\<close> and
  \<open>deleteEdit\<close>; \<open>OtherEdit\<close> stands for any other discriminant.
\<close>

datatype ModelEdit =
    InsertString int string "(int \<times> int) option" "(int \<times> int) option"
  | ChangeRange int int string "(int \<times> int) option" "(int \<times> int) option"
  | DeleteRange int int "(int \<times> int) option" "(int \<times> int) option"
  | OtherEdit string

text \<open>
  Modelled from the spec: the type \<open>ModelEditOptions\<close> of cursor-doc/model is not in the
  sources at hand. Section 3 of the spec: the options undoStopBefore, selection,
  skipFormat and formatDepth, each of which may be absent (\<open>None\<close>).
\<close>

record ModelEditOptions =
  undoStopBefore :: "bool option"
  selection :: "ModelEditSelection option"
  skipFormat :: "bool option"
  formatDepth :: "int option"

text \<open>Truthiness of an optional boolean and of an optional number.\<close>

definition truthy_bool :: "bool option \<Rightarrow> bool" where
  "truthy_bool v = (case v of None \<Rightarrow> False | Some b \<Rightarrow> b)"

definition truthy_number :: "int option \<Rightarrow> bool" where
  "truthy_number v = (case v of None \<Rightarrow> False | Some n \<Rightarrow> n \<noteq> 0)"

subsection \<open>\<open>DocumentModel.edit\<close> (lines 15-68)\<close>

text \<open>Lines 49-53.\<close>

definition insertEdit ::
  "vscode \<Rightarrow> TextEditor \<Rightarrow> TextEditorEdit \<Rightarrow> int \<Rightarrow> string \<Rightarrow>
   (int \<times> int) option \<Rightarrow> (int \<times> int) option \<Rightarrow> TextEditorEdit" where
  "insertEdit vs editor builder offset txt oldSelection newSelection =
     (let document = editor_document editor
      in builder @ [BuilderInsert (positionAt vs document offset) txt])"

text \<open>Lines 55-61.\<close>

definition replaceEdit ::
  "vscode \<Rightarrow> TextEditor \<Rightarrow> TextEditorEdit \<Rightarrow> int \<Rightarrow> int \<Rightarrow> string \<Rightarrow>
   (int \<times> int) option \<Rightarrow> (int \<times> int) option \<Rightarrow> TextEditorEdit" where
  "replaceEdit vs editor builder start end' txt oldSelection newSelection =
     (let document = editor_document editor;
          rng = Range (positionAt vs document start) (positionAt vs document end')
      in builder @ [BuilderReplace rng txt])"

text \<open>Lines 63-68.\<close>

definition deleteEdit ::
  "vscode \<Rightarrow> TextEditor \<Rightarrow> TextEditorEdit \<Rightarrow> int \<Rightarrow> int \<Rightarrow>
   (int \<times> int) option \<Rightarrow> (int \<times> int) option \<Rightarrow> TextEditorEdit" where
  "deleteEdit vs editor builder offset count oldSelection newSelection =
     (let document = editor_document editor;
          rng = Range (positionAt vs document offset) (positionAt vs document (offset + count))
      in builder @ [BuilderDelete rng])"

text \<open>
  Lines 19-33, the callback of \<open>editor.edit\<close>: the loop over \<open>modelEdits\<close> with its switch.
  The editor is the one of the moment of the call: the host applies the builder's calls
  only after the callback has returned.
\<close>

fun edit_callback ::
  "vscode \<Rightarrow> TextEditor \<Rightarrow> ModelEdit list \<Rightarrow> TextEditorEdit \<Rightarrow> TextEditorEdit" where
  "edit_callback vs editor [] builder = builder"
| "edit_callback vs editor (modelEdit # modelEdits) builder =
     edit_callback vs editor modelEdits
       (case modelEdit of
          InsertString offset txt oldSelection newSelection \<Rightarrow>
            insertEdit vs editor builder offset txt oldSelection newSelection
        | ChangeRange start end' txt oldSelection newSelection \<Rightarrow>
            replaceEdit vs editor builder start end' txt oldSelection newSelection
        | DeleteRange offset count oldSelection newSelection \<Rightarrow>
            deleteEdit vs editor builder offset count oldSelection newSelection
        | OtherEdit editFn \<Rightarrow> builder)"

text \<open>Lines 112-119, the setter \<open>selection\<close> of \<open>MirroredDocument\<close>.\<close>

definition set_selection :: "vscode \<Rightarrow> ModelEditSelection \<Rightarrow> TextEditor \<Rightarrow> TextEditor" where
  "set_selection vs sel editor =
     (let document = editor_document editor;
          anchor_pos = positionAt vs document (anchor_offset sel);
          active_pos = positionAt vs document (active_offset sel)
      in editor\<lparr>editor_selection := Selection anchor_pos active_pos,
                revealed := revealed editor @ [Range active_pos active_pos]\<rparr>)"

text \<open>Line 41: \<open>options.formatDepth ? options.formatDepth : 1\<close>.\<close>

definition format_depth :: "ModelEditOptions \<Rightarrow> int" where
  "format_depth options =
     (if truthy_number (formatDepth options)
      then (case formatDepth options of Some d \<Rightarrow> d | None \<Rightarrow> 1)
      else 1)"

text \<open>
  Lines 15-47. The result is the editor afterwards and how the returned promise settles.
  There is an active text editor, and it shows the mirrored document.
\<close>

definition edit ::
  "vscode \<Rightarrow> formatter \<Rightarrow> ModelEdit list \<Rightarrow> ModelEditOptions \<Rightarrow> TextEditor \<Rightarrow>
   TextEditor \<times> bool promise" where
  "edit vs formatPosition modelEdits options editor =
     (let undoStop = truthy_bool (undoStopBefore options);
          (editor1, isFulfilled) =
             editor_edit vs (edit_callback vs editor modelEdits []) (undoStop, False) editor
      in if isFulfilled then
           (let editor2 =
                  (case selection options of
                     None \<Rightarrow> editor1
                   | Some sel \<Rightarrow> set_selection vs sel editor1)
            in if \<not> truthy_bool (skipFormat options)
               then formatPosition editor2 False (format_depth options)
               else (editor2, Resolved isFulfilled))
         else (editor1, Resolved isFulfilled))"

subsection \<open>\<open>MirroredDocument\<close> (lines 82-138)\<close>

text \<open>Lines 85-91: the offsets of the ends of the selection, by the live document.\<close>

definition selectionLeft :: "vscode \<Rightarrow> TextEditor \<Rightarrow> int" where
  "selectionLeft vs editor =
     offsetAt vs (editor_document editor) (anchor (editor_selection editor))"

definition selectionRight :: "vscode \<Rightarrow> TextEditor \<Rightarrow> int" where
  "selectionRight vs editor =
     offsetAt vs (editor_document editor) (active (editor_selection editor))"

text \<open>Lines 121-123, the getter \<open>selection\<close>.\<close>

definition get_selection :: "vscode \<Rightarrow> TextEditor \<Rightarrow> ModelEditSelection" where
  "get_selection vs editor = ModelEditSelection (selectionLeft vs editor) (selectionRight vs editor)"

text \<open>
  Lines 101-110. The callback of \<open>then\<close> runs once the host has applied the workspace
  edit, whatever boolean it resolved to.
\<close>

definition insertString :: "vscode \<Rightarrow> string \<Rightarrow> TextEditor \<Rightarrow> TextEditor" where
  "insertString vs txt editor =
     (let sel = editor_selection editor;
          document = editor_document editor;
          edit1 = TextEdit_insert (positionAt vs document (selectionLeft vs editor)) txt;
          wsEdit = [(uri document, [edit1])];
          (editor1, v) = applyEdit vs wsEdit editor
      in editor1\<lparr>editor_selection := sel\<rparr>)"

subsection \<open>The line model and the registry (lines 8, 13, 140-180)\<close>

text \<open>
  Modelled from the spec: the class \<open>LineInputModel\<close> of cursor-doc/model is not in the
  sources at hand. Sections 2 and 6 of the spec: the model owns the text as a table of
  lines and keeps three collections for repaint hints, the dirty-line list, the
  inserted-line set and the deleted-line set. Line 13 of the source constructs it from
  the length of the document's line terminator, 2 for CRLF and 1 otherwise.
\<close>

record LineInputModel =
  lineEndingLength :: nat
  model_lines :: "string list"
  dirtyLines :: "nat list"
  insertedLines :: "nat set"
  deletedLines :: "nat set"

text \<open>
  The methods of \<open>LineInputModel\<close> that the mirror calls are parameters of the model: the
  constructor, \<open>insertString\<close>, \<open>getOffsetForLine\<close>, \<open>edit\<close> and \<open>flushChanges\<close>.
\<close>

record line_model_api =
  new_LineInputModel :: "nat \<Rightarrow> LineInputModel"
  lim_insertString :: "int \<Rightarrow> string \<Rightarrow> LineInputModel \<Rightarrow> LineInputModel"
  getOffsetForLine :: "LineInputModel \<Rightarrow> nat \<Rightarrow> int"
  lim_edit :: "ModelEdit list \<Rightarrow> ModelEditOptions \<Rightarrow> LineInputModel \<Rightarrow> LineInputModel"
  flushChanges :: "LineInputModel \<Rightarrow> LineInputModel"

record DocumentModel =
  lineInputModel :: LineInputModel

record MirroredDocument =
  document :: TextDocument
  model :: DocumentModel
  selectionStack :: "ModelEditSelection list"

text \<open>
  Line 8: the registry \<open>documents\<close>, a \<open>Map\<close> keyed by the identity of the document.
\<close>

type_synonym registry = "nat \<rightharpoonup> MirroredDocument"

text \<open>Lines 11-13, 83 and 93-95: \<open>new MirroredDocument(doc)\<close>.\<close>

definition new_MirroredDocument :: "line_model_api \<Rightarrow> TextDocument \<Rightarrow> MirroredDocument" where
  "new_MirroredDocument api doc =
     \<lparr>document = doc,
      model = \<lparr>lineInputModel = new_LineInputModel api (if eol doc = CRLF then 2 else 1)\<rparr>,
      selectionStack = []\<rparr>"

text \<open>
  Lines 168-180. The argument is \<open>None\<close> for a document that is \<open>undefined\<close>. The result is
  the registry afterwards and the returned boolean.
\<close>

definition addDocument ::
  "line_model_api \<Rightarrow> TextDocument option \<Rightarrow> registry \<Rightarrow> registry \<times> bool" where
  "addDocument api doc documents =
     (case doc of
        None \<Rightarrow> (documents, False)
      | Some d \<Rightarrow>
          if languageId d = ''clojure'' then
            (if documents (ident d) = None then
               (let mirror = new_MirroredDocument api d;
                    seeded = lim_insertString api 0 (getText d) (lineInputModel (model mirror))
                in (documents(ident d \<mapsto> mirror\<lparr>model := \<lparr>lineInputModel = seeded\<rparr>\<rparr>), False))
             else (documents, True))
          else (documents, False))"

text \<open>A change of a change event, with the offset and length that the host computed.\<close>

record TextDocumentContentChangeEvent =
  change_range :: Range
  rangeOffset :: nat
  rangeLength :: nat
  change_text :: string

record TextDocumentChangeEvent =
  event_document :: TextDocument
  contentChanges :: "TextDocumentContentChangeEvent list"

text \<open>Line 148: \<open>change.text.replace(/\r\n/g, '\n')\<close>, the matches taken from left to right.\<close>

fun replace_crlf :: "string \<Rightarrow> string" where
  "replace_crlf [] = []"
| "replace_crlf [c] = [c]"
| "replace_crlf (c # d # cs) =
     (if c = CHR 0x0D \<and> d = CHR 0x0A then CHR 0x0A # replace_crlf cs
      else c # replace_crlf (d # cs))"

text \<open>Lines 146-148: the edit that one change is translated to.\<close>

definition translate_change ::
  "line_model_api \<Rightarrow> LineInputModel \<Rightarrow> TextDocumentContentChangeEvent \<Rightarrow> ModelEdit" where
  "translate_change api m change =
     (let myStartOffset =
            getOffsetForLine api m (line (range_start (change_range change)))
            + int (character (range_start (change_range change)));
          myEndOffset =
            getOffsetForLine api m (line (range_end (change_range change)))
            + int (character (range_end (change_range change)))
      in ChangeRange myStartOffset myEndOffset (replace_crlf (change_text change)) None None)"

text \<open>The empty options \<open>{}\<close> of line 149.\<close>

definition no_options :: ModelEditOptions where
  "no_options = \<lparr>undoStopBefore = None, selection = None, skipFormat = None, formatDepth = None\<rparr>"

text \<open>
  Lines 144-150, the loop over \<open>event.contentChanges\<close>. Its state is the line model and
  the batches that \<open>lineInputModel.edit\<close> was called with so far, in call order.
\<close>

fun changes_loop ::
  "line_model_api \<Rightarrow> TextDocumentContentChangeEvent list \<Rightarrow>
   LineInputModel \<times> ModelEdit list list \<Rightarrow> LineInputModel \<times> ModelEdit list list" where
  "changes_loop api [] st = st"
| "changes_loop api (change # changes) (m, submitted) =
     (let batch = [translate_change api m change]
      in changes_loop api changes (lim_edit api batch no_options m, submitted @ [batch]))"

datatype error = TypeError

text \<open>
  Lines 142-157. Reading \<open>model\<close> of a document that the registry does not have raises a
  TypeError. The result is the registry afterwards and the batches that the model was
  given.
\<close>

definition processChanges ::
  "line_model_api \<Rightarrow> TextDocumentChangeEvent \<Rightarrow> registry \<Rightarrow>
   error + (registry \<times> ModelEdit list list)" where
  "processChanges api event documents =
     (case documents (ident (event_document event)) of
        None \<Rightarrow> Inl TypeError
      | Some mirror \<Rightarrow>
          (let (m1, submitted) =
                 changes_loop api (contentChanges event) (lineInputModel (model mirror), []);
               m2 = flushChanges api m1;
               m3 = m2\<lparr>dirtyLines := [], insertedLines := {}, deletedLines := {}\<rparr>
           in Inr (documents(ident (event_document event) \<mapsto>
                      mirror\<lparr>model := \<lparr>lineInputModel = m3\<rparr>\<rparr>),
                   submitted)))"

text \<open>Lines 206-210: the handler of \<open>onDidChangeTextDocument\<close>.\<close>

definition onDidChangeTextDocument ::
  "line_model_api \<Rightarrow> TextDocumentChangeEvent \<Rightarrow> registry \<Rightarrow>
   error + (registry \<times> ModelEdit list list)" where
  "onDidChangeTextDocument api e documents =
     (case addDocument api (Some (event_document e)) documents of
        (documents1, True) \<Rightarrow> processChanges api e documents1
      | (documents1, False) \<Rightarrow> Inr (documents1, []))"

section \<open>The absent collaborators, modelled from the spec\<close>

subsection \<open>A host buffer\<close>

text \<open>
  Modelled from the spec: the host's conversion of an offset to a position (section 6,
  the host buffer API) is not part of the repository. Lines end at a line feed; an
  offset before the start or after the end of the text is taken to the start or the end.
\<close>

fun position_from :: "string \<Rightarrow> nat \<Rightarrow> nat \<Rightarrow> nat \<Rightarrow> Position" where
  "position_from [] n l c = Position l c"
| "position_from (x # xs) 0 l c = Position l c"
| "position_from (x # xs) (Suc n) l c =
     (if x = CHR 0x0A then position_from xs n (Suc l) 0 else position_from xs n l (Suc c))"

definition spec_positionAt :: "TextDocument \<Rightarrow> int \<Rightarrow> Position" where
  "spec_positionAt doc offset = position_from (getText doc) (nat offset) 0 0"

text \<open>
  Modelled from the spec: the host's conversion of a position to an offset (section 6).
  A character beyond the end of its line is taken to the end of the line, a line beyond
  the last one to the end of the text.
\<close>

fun offset_from :: "string \<Rightarrow> nat \<Rightarrow> nat \<Rightarrow> nat" where
  "offset_from [] l c = 0"
| "offset_from (x # xs) 0 0 = 0"
| "offset_from (x # xs) 0 (Suc c) = (if x = CHR 0x0A then 0 else Suc (offset_from xs 0 c))"
| "offset_from (x # xs) (Suc l) c =
     Suc (if x = CHR 0x0A then offset_from xs l c else offset_from xs (Suc l) c)"

definition spec_offsetAt :: "TextDocument \<Rightarrow> Position \<Rightarrow> int" where
  "spec_offsetAt doc p = int (offset_from (getText doc) (line p) (character p))"

text \<open>
  Modelled from the spec: the host's edit transaction is not part of the repository.
  Sections 3 and 4.3 of the spec: Insert inserts the text at the offset, Replace replaces
  the span from the start offset to the end offset, Delete removes the span; the edits
  of one batch are applied in list order, each at the offset that its position has in
  the document before the batch, with no shifting of offsets between them.
\<close>

definition splice :: "string \<Rightarrow> nat \<Rightarrow> nat \<Rightarrow> string \<Rightarrow> string" where
  "splice buf s e txt = take s buf @ txt @ drop e buf"

fun apply_call :: "TextDocument \<Rightarrow> string \<Rightarrow> builder_call \<Rightarrow> string" where
  "apply_call doc0 buf (BuilderInsert p txt) =
     splice buf (nat (spec_offsetAt doc0 p)) (nat (spec_offsetAt doc0 p)) txt"
| "apply_call doc0 buf (BuilderReplace r txt) =
     splice buf (nat (spec_offsetAt doc0 (range_start r))) (nat (spec_offsetAt doc0 (range_end r))) txt"
| "apply_call doc0 buf (BuilderDelete r) =
     splice buf (nat (spec_offsetAt doc0 (range_start r))) (nat (spec_offsetAt doc0 (range_end r))) []"

definition apply_calls :: "TextDocument \<Rightarrow> builder_call list \<Rightarrow> string" where
  "apply_calls doc0 calls = foldl (apply_call doc0) (getText doc0) calls"

text \<open>A transaction that commits, and one that meets a conflict and does not.\<close>

definition spec_editor_edit ::
  "TextEditorEdit \<Rightarrow> bool \<times> bool \<Rightarrow> TextEditor \<Rightarrow> TextEditor \<times> bool" where
  "spec_editor_edit builder undo editor =
     (editor\<lparr>editor_document :=
        (editor_document editor)\<lparr>getText := apply_calls (editor_document editor) builder\<rparr>\<rparr>,
      True)"

definition conflict_editor_edit ::
  "TextEditorEdit \<Rightarrow> bool \<times> bool \<Rightarrow> TextEditor \<Rightarrow> TextEditor \<times> bool" where
  "conflict_editor_edit builder undo editor = (editor, False)"

text \<open>
  Modelled from the spec: the host's \<open>workspace.applyEdit\<close> is not part of the repository.
  Section 4.4 of the spec: the text is inserted into the document, and the cursor of the
  editor moves, here to the end of the inserted text.
\<close>

fun apply_text_edit :: "TextEditor \<Rightarrow> TextEdit \<Rightarrow> TextEditor" where
  "apply_text_edit editor (TextEdit_insert p txt) =
     (let doc0 = editor_document editor;
          k = nat (spec_offsetAt doc0 p);
          doc1 = doc0\<lparr>getText := splice (getText doc0) k k txt\<rparr>;
          cursor = spec_positionAt doc1 (int (k + length txt))
      in editor\<lparr>editor_document := doc1, editor_selection := Selection cursor cursor\<rparr>)"

definition spec_applyEdit :: "WorkspaceEdit \<Rightarrow> TextEditor \<Rightarrow> TextEditor \<times> bool" where
  "spec_applyEdit wsEdit editor =
     (foldl apply_text_edit editor
        (concat (map snd (filter (\<lambda>entry. fst entry = uri (editor_document editor)) wsEdit))),
      True)"

definition spec_vscode :: vscode where
  "spec_vscode =
     \<lparr>positionAt = spec_positionAt, offsetAt = spec_offsetAt,
      editor_edit = spec_editor_edit, applyEdit = spec_applyEdit\<rparr>"

definition conflict_vscode :: vscode where
  "conflict_vscode =
     \<lparr>positionAt = spec_positionAt, offsetAt = spec_offsetAt,
      editor_edit = conflict_editor_edit, applyEdit = spec_applyEdit\<rparr>"

subsection \<open>A line model\<close>

text \<open>
  Modelled from the spec: \<open>getOffsetForLine\<close> of \<open>LineInputModel\<close> is not in the sources at
  hand. Sections 4.2 and 8 of the spec: the character offset of the start of a line, each
  earlier line counting its characters and its line terminator (the lines abc and def
  with one newline start at 0 and 4).
\<close>

definition spec_getOffsetForLine :: "LineInputModel \<Rightarrow> nat \<Rightarrow> int" where
  "spec_getOffsetForLine m l =
     int (\<Sum>s\<leftarrow>take l (model_lines m). length s + lineEndingLength m)"

text \<open>The lines of a text, split at each line feed.\<close>

fun split_lines :: "string \<Rightarrow> string list" where
  "split_lines [] = [[]]"
| "split_lines (c # cs) =
     (if c = CHR 0x0A then [] # split_lines cs
      else (case split_lines cs of [] \<Rightarrow> [[c]] | l # ls \<Rightarrow> (c # l) # ls))"

text \<open>The line and column of an offset in a table of lines with terminators of length \<open>n\<close>.\<close>

fun locate :: "nat \<Rightarrow> string list \<Rightarrow> nat \<Rightarrow> nat \<times> nat" where
  "locate n [] off = (0, 0)"
| "locate n [l] off = (0, min off (length l))"
| "locate n (l # l' # ls) off =
     (if off < length l + n then (0, min off (length l))
      else (case locate n (l' # ls) (off - (length l + n)) of (r, c) \<Rightarrow> (Suc r, c)))"

definition line_at :: "string list \<Rightarrow> nat \<Rightarrow> string" where
  "line_at ls i = (case drop i ls of [] \<Rightarrow> [] | l # rest \<Rightarrow> l)"

text \<open>
  Modelled from the spec: the edits of \<open>LineInputModel\<close> are not in the sources at hand.
  Sections 2 and 4.3 of the spec: replace-range replaces the span from the start offset
  to the end offset with the text; insert and delete are the replacements of an empty
  span and by an empty text. The spec does not say what an edit adds to the collections
  of repaint hints; here it leaves them as they are.
\<close>

definition spec_changeRange :: "int \<Rightarrow> int \<Rightarrow> string \<Rightarrow> LineInputModel \<Rightarrow> LineInputModel" where
  "spec_changeRange start end' txt m =
     (case (locate (lineEndingLength m) (model_lines m) (nat start),
            locate (lineEndingLength m) (model_lines m) (nat end')) of
        ((sl, sc), (el, ec)) \<Rightarrow>
          m\<lparr>model_lines :=
              take sl (model_lines m)
              @ split_lines (take sc (line_at (model_lines m) sl) @ txt
                             @ drop ec (line_at (model_lines m) el))
              @ drop (Suc el) (model_lines m)\<rparr>)"

fun spec_apply_edit :: "LineInputModel \<Rightarrow> ModelEdit \<Rightarrow> LineInputModel" where
  "spec_apply_edit m (InsertString offset txt old new) = spec_changeRange offset offset txt m"
| "spec_apply_edit m (ChangeRange start end' txt old new) = spec_changeRange start end' txt m"
| "spec_apply_edit m (DeleteRange offset count old new) = spec_changeRange offset (offset + count) [] m"
| "spec_apply_edit m (OtherEdit editFn) = m"

definition spec_line_model :: line_model_api where
  "spec_line_model =
     \<lparr>new_LineInputModel =
        (\<lambda>n. \<lparr>lineEndingLength = n, model_lines = [[]], dirtyLines = [],
               insertedLines = {}, deletedLines = {}\<rparr>),
      lim_insertString = (\<lambda>offset txt m. spec_changeRange offset offset txt m),
      getOffsetForLine = spec_getOffsetForLine,
      lim_edit = (\<lambda>edits options m. foldl spec_apply_edit m edits),
      flushChanges = (\<lambda>m. m)\<rparr>"

section \<open>Example inputs\<close>

definition core_doc :: TextDocument where
  "core_doc =
     \<lparr>ident = 1, uri = ''file:///src/core.clj'', languageId = ''clojure'', eol = LF,
      getText = ''abc'' @ [CHR 0x0A] @ ''def''\<rparr>"

definition readme_doc :: TextDocument where
  "readme_doc =
     \<lparr>ident = 2, uri = ''file:///README.md'', languageId = ''markdown'', eol = LF,
      getText = ''# calva''\<rparr>"

definition core_editor :: TextEditor where
  "core_editor =
     \<lparr>editor_document = core_doc,
      editor_selection = Selection (Position 0 1) (Position 1 2),
      revealed = []\<rparr>"

text \<open>
  Two formatters: one whose promise resolves to false, as when the edit of the format
  pass does not go through, and one whose promise tells whether its depth was 0.
\<close>

definition idle_formatter :: formatter where
  "idle_formatter editor onType depth = (editor, Resolved False)"

definition depth_probe :: formatter where
  "depth_probe editor onType depth = (editor, Resolved (depth = 0))"

definition dirty_model :: LineInputModel where
  "dirty_model =
     \<lparr>lineEndingLength = 1, model_lines = [''abc'', ''def''], dirtyLines = [0, 1],
      insertedLines = {1}, deletedLines = {2, 3}\<rparr>"

definition core_mirror :: MirroredDocument where
  "core_mirror =
     \<lparr>document = core_doc, model = \<lparr>lineInputModel = dirty_model\<rparr>, selectionStack = []\<rparr>"

definition core_registry :: registry where
  "core_registry = [1 \<mapsto> core_mirror]"

definition core_change :: TextDocumentContentChangeEvent where
  "core_change =
     \<lparr>change_range = Range (Position 1 1) (Position 1 2), rangeOffset = 1, rangeLength = 1,
      change_text = ''a'' @ [CHR 0x0D, CHR 0x0A] @ ''b''\<rparr>"

definition core_event :: TextDocumentChangeEvent where
  "core_event = \<lparr>event_document = core_doc, contentChanges = [core_change]\<rparr>"

definition zero_depth_options :: ModelEditOptions where
  "zero_depth_options = no_options\<lparr>formatDepth := Some 0\<rparr>"

definition quiet_options :: ModelEditOptions where
  "quiet_options =
     no_options\<lparr>skipFormat := Some True, selection := Some (ModelEditSelection 4 6)\<rparr>"

text \<open>Two batches that differ in the selections that their edits carry, and in nothing else.\<close>

definition batch_a :: "ModelEdit list" where
  "batch_a = [InsertString 0 ''X'' (Some (0, 1)) None, DeleteRange 4 2 None (Some (2, 2))]"

definition batch_b :: "ModelEdit list" where
  "batch_b = [InsertString 0 ''X'' None (Some (5, 5)), DeleteRange 4 2 (Some (1, 1)) None]"

definition other_registry :: registry where
  "other_registry = [3 \<mapsto> core_mirror]"

definition core_doc_later :: TextDocument where
  "core_doc_later = core_doc\<lparr>getText := ''(ns core)''\<rparr>"

section \<open>The spec's words, for comparison with the source\<close>

text \<open>
  Section 4.3 of the spec, step 2: what one logical edit asks of the host. Insert
  inserts the text at the offset, Replace replaces the span from the start offset to the
  end offset with the text, Delete removes the span from the offset to the offset plus
  the count; the offsets are converted by the live document.
\<close>

fun spec_dispatch :: "vscode \<Rightarrow> TextEditor \<Rightarrow> ModelEdit \<Rightarrow> builder_call list" where
  "spec_dispatch vs editor (InsertString offset txt old new) =
     [BuilderInsert (positionAt vs (editor_document editor) offset) txt]"
| "spec_dispatch vs editor (ChangeRange startOffset endOffset txt old new) =
     [BuilderReplace
        (Range (positionAt vs (editor_document editor) startOffset)
               (positionAt vs (editor_document editor) endOffset)) txt]"
| "spec_dispatch vs editor (DeleteRange offset count old new) =
     [BuilderDelete
        (Range (positionAt vs (editor_document editor) offset)
               (positionAt vs (editor_document editor) (offset + count)))]"
| "spec_dispatch vs editor (OtherEdit editFn) = []"

text \<open>A logical edit without its oldSelection and newSelection.\<close>

fun erase_selections :: "ModelEdit \<Rightarrow> ModelEdit" where
  "erase_selections (InsertString offset txt old new) = InsertString offset txt None None"
| "erase_selections (ChangeRange start end' txt old new) = ChangeRange start end' txt None None"
| "erase_selections (DeleteRange offset count old new) = DeleteRange offset count None None"
| "erase_selections (OtherEdit editFn) = OtherEdit editFn"

text \<open>
  The transaction that \<open>edit\<close> opens for a batch: the editor that the host returns and
  whether the transaction committed.
\<close>

definition transaction ::
  "vscode \<Rightarrow> ModelEdit list \<Rightarrow> ModelEditOptions \<Rightarrow> TextEditor \<Rightarrow> TextEditor \<times> bool" where
  "transaction vs modelEdits options editor =
     editor_edit vs (edit_callback vs editor modelEdits [])
       (truthy_bool (undoStopBefore options), False) editor"

definition committed ::
  "vscode \<Rightarrow> ModelEdit list \<Rightarrow> ModelEditOptions \<Rightarrow> TextEditor \<Rightarrow> bool" where
  "committed vs modelEdits options editor = snd (transaction vs modelEdits options editor)"

text \<open>The editor when the callback of \<open>then\<close> has applied the selection of the options.\<close>

definition after_selection ::
  "vscode \<Rightarrow> ModelEdit list \<Rightarrow> ModelEditOptions \<Rightarrow> TextEditor \<Rightarrow> TextEditor" where
  "after_selection vs modelEdits options editor =
     (case selection options of
        None \<Rightarrow> fst (transaction vs modelEdits options editor)
      | Some sel \<Rightarrow> set_selection vs sel (fst (transaction vs modelEdits options editor)))"

text \<open>
  The line model at the moment the change number \<open>i\<close> of an event is translated: the
  model after the edits of the changes before it.
\<close>

definition model_before ::
  "line_model_api \<Rightarrow> LineInputModel \<Rightarrow> TextDocumentContentChangeEvent list \<Rightarrow> nat \<Rightarrow>
   LineInputModel" where
  "model_before api m changes i = fst (changes_loop api (take i changes) (m, []))"

text \<open>A text without a carriage return that a line feed follows.\<close>

fun crlf_free :: "string \<Rightarrow> bool" where
  "crlf_free [] = True"
| "crlf_free [c] = True"
| "crlf_free (c # d # cs) = (\<not> (c = CHR 0x0D \<and> d = CHR 0x0A) \<and> crlf_free (d # cs))"

text \<open>A change with other values for the offset and the length that the host computed.\<close>

definition with_host_offsets ::
  "(TextDocumentContentChangeEvent \<Rightarrow> nat) \<Rightarrow> (TextDocumentContentChangeEvent \<Rightarrow> nat) \<Rightarrow>
   TextDocumentContentChangeEvent \<Rightarrow> TextDocumentContentChangeEvent" where
  "with_host_offsets ro rl change = change\<lparr>rangeOffset := ro change, rangeLength := rl change\<rparr>"

text \<open>The mirror that \<open>addDocument\<close> creates for a document.\<close>

definition seeded_mirror :: "line_model_api \<Rightarrow> TextDocument \<Rightarrow> MirroredDocument" where
  "seeded_mirror api d =
     \<lparr>document = d,
      model = \<lparr>lineInputModel =
        lim_insertString api 0 (getText d)
          (new_LineInputModel api (if eol d = CRLF then 2 else 1))\<rparr>,
      selectionStack = []\<rparr>"

section \<open>Properties of the test runner\<close>




























section \<open>Properties of the document mirror\<close>

subsection \<open>\<open>DocumentModel.edit\<close>\<close>

lemma edit_callback_calls:
  "edit_callback vs editor modelEdits builder =
     builder @ concat (map (spec_dispatch vs editor) modelEdits)"
proof (induction modelEdits arbitrary: builder)
  case Nil
  then show ?case by simp
next
  case (Cons modelEdit modelEdits)
  then show ?case
    by (cases modelEdit) (simp_all add: insertEdit_def replaceEdit_def deleteEdit_def Let_def)
qed

lemma edit_unfold:
  "edit vs fmt modelEdits options editor =
     (if committed vs modelEdits options editor
      then (if truthy_bool (skipFormat options)
            then (after_selection vs modelEdits options editor, Resolved True)
            else fmt (after_selection vs modelEdits options editor) False (format_depth options))
      else (fst (transaction vs modelEdits options editor), Resolved False))"
  by (simp add: edit_def committed_def after_selection_def transaction_def Let_def
      split: prod.splits option.splits)

lemma spec_vscode_commits: "committed spec_vscode modelEdits options editor"
  by (simp add: committed_def transaction_def spec_vscode_def spec_editor_edit_def)

lemma conflict_vscode_fails: "transaction conflict_vscode modelEdits options editor = (editor, False)"
  by (simp add: transaction_def conflict_vscode_def conflict_editor_edit_def)

text \<open>
  C1, as the code has it. The promise of \<open>edit\<close> resolves to false when the transaction
  does not commit, and to true when it commits and the options skip the format pass.
  When the transaction commits and the format pass runs, the promise settles as the
  promise of the formatter does. On a host whose transaction meets a conflict, the
  promise resolves to false and the editor is as it was.
\<close>

theorem edit_promise:
  "snd (edit vs fmt modelEdits options editor) =
     (if \<not> committed vs modelEdits options editor then Resolved False
      else if truthy_bool (skipFormat options) then Resolved True
      else snd (fmt (after_selection vs modelEdits options editor) False (format_depth options))) \<and>
   edit conflict_vscode fmt modelEdits options editor = (editor, Resolved False)"
  by (simp add: edit_unfold committed_def conflict_vscode_fails)

text \<open>
  C1 as stated fails: the transaction commits, the format pass runs and its promise
  resolves to false, and so does the promise of \<open>edit\<close>.
\<close>

theorem edit_promise_counterexample:
  "committed spec_vscode [InsertString 0 ''X'' None None] no_options core_editor \<and>
   snd (edit spec_vscode idle_formatter [InsertString 0 ''X'' None None] no_options core_editor)
     = Resolved False"
  by (simp add: edit_unfold spec_vscode_commits no_options_def truthy_bool_def idle_formatter_def)

text \<open>
  C6, as the code has it. When the transaction commits, the selection of the options,
  if there is one, is set on the editor by its anchor and active offsets and its active
  end is revealed; then, unless \<open>skipFormat\<close> is true, the formatter is called with the
  flag false and with the depth \<open>formatDepth\<close> when that is present and not zero, and
  with the depth 1 otherwise. When the transaction does not commit, the editor is the
  one that the host returned and the formatter is not called. With no options, the
  transaction is opened with no undo stop before or after, and the formatter is called
  with depth 1.
\<close>

theorem edit_after_commit:
  "edit vs fmt modelEdits options editor =
     (if committed vs modelEdits options editor
      then (if skipFormat options = Some True
            then (after_selection vs modelEdits options editor, Resolved True)
            else fmt (after_selection vs modelEdits options editor) False
                   (case formatDepth options of
                      None \<Rightarrow> 1
                    | Some d \<Rightarrow> if d = 0 then 1 else d))
      else (fst (transaction vs modelEdits options editor), Resolved False)) \<and>
   after_selection vs modelEdits options editor =
     (case selection options of
        None \<Rightarrow> fst (transaction vs modelEdits options editor)
      | Some sel \<Rightarrow>
          (let editor1 = fst (transaction vs modelEdits options editor);
               anchor_pos = positionAt vs (editor_document editor1) (anchor_offset sel);
               active_pos = positionAt vs (editor_document editor1) (active_offset sel)
           in editor1\<lparr>editor_selection := Selection anchor_pos active_pos,
                       revealed := revealed editor1 @ [Range active_pos active_pos]\<rparr>)) \<and>
   transaction vs modelEdits options editor =
     editor_edit vs (edit_callback vs editor modelEdits [])
       (undoStopBefore options = Some True, False) editor \<and>
   transaction vs modelEdits no_options editor =
     editor_edit vs (edit_callback vs editor modelEdits []) (False, False) editor \<and>
   edit vs fmt modelEdits no_options editor =
     (if committed vs modelEdits no_options editor
      then fmt (fst (transaction vs modelEdits no_options editor)) False 1
      else (fst (transaction vs modelEdits no_options editor), Resolved False))"
proof -
  have skip: "truthy_bool (skipFormat options) \<longleftrightarrow> skipFormat options = Some True"
    by (simp add: truthy_bool_def split: option.splits)
  have undo: "truthy_bool (undoStopBefore options) \<longleftrightarrow> undoStopBefore options = Some True"
    by (simp add: truthy_bool_def split: option.splits)
  have depth: "format_depth options =
      (case formatDepth options of None \<Rightarrow> 1 | Some d \<Rightarrow> if d = 0 then 1 else d)"
    by (simp add: format_depth_def truthy_number_def split: option.splits)
  have c1: "edit vs fmt modelEdits options editor =
     (if committed vs modelEdits options editor
      then (if skipFormat options = Some True
            then (after_selection vs modelEdits options editor, Resolved True)
            else fmt (after_selection vs modelEdits options editor) False
                   (case formatDepth options of
                      None \<Rightarrow> 1
                    | Some d \<Rightarrow> if d = 0 then 1 else d))
      else (fst (transaction vs modelEdits options editor), Resolved False))"
    unfolding edit_unfold skip depth by simp
  have c2: "after_selection vs modelEdits options editor =
     (case selection options of
        None \<Rightarrow> fst (transaction vs modelEdits options editor)
      | Some sel \<Rightarrow>
          (let editor1 = fst (transaction vs modelEdits options editor);
               anchor_pos = positionAt vs (editor_document editor1) (anchor_offset sel);
               active_pos = positionAt vs (editor_document editor1) (active_offset sel)
           in editor1\<lparr>editor_selection := Selection anchor_pos active_pos,
                       revealed := revealed editor1 @ [Range active_pos active_pos]\<rparr>))"
    by (simp add: after_selection_def set_selection_def Let_def split: option.splits)
  have c3: "transaction vs modelEdits options editor =
     editor_edit vs (edit_callback vs editor modelEdits [])
       (undoStopBefore options = Some True, False) editor"
    by (simp add: transaction_def undo)
  have c4: "transaction vs modelEdits no_options editor =
     editor_edit vs (edit_callback vs editor modelEdits []) (False, False) editor"
    by (simp add: transaction_def no_options_def truthy_bool_def)
  have c5: "edit vs fmt modelEdits no_options editor =
     (if committed vs modelEdits no_options editor
      then fmt (fst (transaction vs modelEdits no_options editor)) False 1
      else (fst (transaction vs modelEdits no_options editor), Resolved False))"
    unfolding edit_unfold
    by (simp add: after_selection_def no_options_def truthy_bool_def format_depth_def
        truthy_number_def)
  from c1 c2 c3 c4 c5 show ?thesis by blast
qed

text \<open>
  C6 as stated fails for the depth zero: the transaction commits, the format pass is not
  skipped and the options ask for \<open>formatDepth\<close> 0, and the formatter is called with
  depth 1, which the probing formatter tells from depth 0.
\<close>

theorem format_depth_counterexample:
  "committed spec_vscode [] zero_depth_options core_editor \<and>
   skipFormat zero_depth_options = None \<and>
   formatDepth zero_depth_options = Some 0 \<and>
   edit spec_vscode depth_probe [] zero_depth_options core_editor =
     depth_probe (after_selection spec_vscode [] zero_depth_options core_editor) False 1 \<and>
   depth_probe (after_selection spec_vscode [] zero_depth_options core_editor) False 1 \<noteq>
     depth_probe (after_selection spec_vscode [] zero_depth_options core_editor) False 0"
  by (simp add: edit_unfold spec_vscode_commits zero_depth_options_def no_options_def
      truthy_bool_def format_depth_def truthy_number_def depth_probe_def)

lemma spec_dispatch_erase:
  "spec_dispatch vs editor (erase_selections modelEdit) = spec_dispatch vs editor modelEdit"
  by (cases modelEdit) simp_all

lemma calls_erase:
  "concat (map (spec_dispatch vs editor) (map erase_selections modelEdits)) =
   concat (map (spec_dispatch vs editor) modelEdits)"
  by (induction modelEdits) (simp_all add: spec_dispatch_erase)

lemma edit_callback_erase:
  "edit_callback vs editor (map erase_selections modelEdits) builder =
   edit_callback vs editor modelEdits builder"
  by (simp only: edit_callback_calls calls_erase)

text \<open>
  C8. Two batches that differ only in the oldSelection and newSelection of their edits
  give the same editor, buffer and selection included, and the same promise, whatever
  the host, the formatter, the options and the editor are.
\<close>

theorem edit_ignores_edit_selections:
  assumes "map erase_selections modelEdits = map erase_selections modelEdits'"
  shows "edit vs fmt modelEdits options editor = edit vs fmt modelEdits' options editor"
proof -
  have "edit_callback vs editor modelEdits [] =
        edit_callback vs editor (map erase_selections modelEdits) []"
    by (simp only: edit_callback_erase)
  also have "\<dots> = edit_callback vs editor (map erase_selections modelEdits') []"
    by (simp only: assms)
  also have "\<dots> = edit_callback vs editor modelEdits' []"
    by (simp only: edit_callback_erase)
  finally show ?thesis by (simp add: edit_def)
qed

theorem edit_ignores_edit_selections_witness:
  "map erase_selections batch_a = map erase_selections batch_b \<and> batch_a \<noteq> batch_b \<and>
   edit spec_vscode idle_formatter batch_a quiet_options core_editor =
   edit spec_vscode idle_formatter batch_b quiet_options core_editor"
proof -
  have h: "map erase_selections batch_a = map erase_selections batch_b"
    by (simp add: batch_a_def batch_b_def)
  have "batch_a \<noteq> batch_b"
    by (simp add: batch_a_def batch_b_def)
  with h edit_ignores_edit_selections [OF h, of spec_vscode idle_formatter quiet_options core_editor]
  show ?thesis by blast
qed







subsection \<open>\<open>processChanges\<close>\<close>

lemma changes_loop_log:
  "changes_loop api changes (m, log) =
     (fst (changes_loop api changes (m, [])), log @ snd (changes_loop api changes (m, [])))"
proof (induction changes arbitrary: m log)
  case Nil
  then show ?case by simp
next
  case (Cons change changes)
  let ?b = "[translate_change api m change]"
  let ?m = "lim_edit api ?b no_options m"
  have "changes_loop api (change # changes) (m, log) = changes_loop api changes (?m, log @ [?b])"
    by (simp add: Let_def)
  also have "\<dots> = (fst (changes_loop api changes (?m, [])),
                    (log @ [?b]) @ snd (changes_loop api changes (?m, [])))"
    by (rule Cons.IH)
  finally have left: "changes_loop api (change # changes) (m, log) =
      (fst (changes_loop api changes (?m, [])),
       log @ ?b # snd (changes_loop api changes (?m, [])))"
    by simp
  have "changes_loop api (change # changes) (m, []) = changes_loop api changes (?m, [] @ [?b])"
    by (simp add: Let_def)
  also have "\<dots> = (fst (changes_loop api changes (?m, [])),
                    ([] @ [?b]) @ snd (changes_loop api changes (?m, [])))"
    by (rule Cons.IH)
  finally have right: "changes_loop api (change # changes) (m, []) =
      (fst (changes_loop api changes (?m, [])), ?b # snd (changes_loop api changes (?m, [])))"
    by simp
  show ?case by (simp only: left right fst_conv snd_conv)
qed

lemma changes_loop_Cons:
  "changes_loop api (change # changes) (m, []) =
     (fst (changes_loop api changes
             (lim_edit api [translate_change api m change] no_options m, [])),
      [translate_change api m change]
      # snd (changes_loop api changes
               (lim_edit api [translate_change api m change] no_options m, [])))"
proof -
  let ?b = "[translate_change api m change]"
  let ?m = "lim_edit api ?b no_options m"
  have "changes_loop api (change # changes) (m, []) = changes_loop api changes (?m, [?b])"
    by (simp add: Let_def)
  also have "\<dots> = (fst (changes_loop api changes (?m, [])),
                    [?b] @ snd (changes_loop api changes (?m, [])))"
    by (rule changes_loop_log)
  finally show ?thesis by simp
qed

lemma submitted_length:
  "length (snd (changes_loop api changes (m, []))) = length changes"
  by (induction changes arbitrary: m) (simp_all add: changes_loop_Cons del: changes_loop.simps(2))

lemma model_before_Suc:
  "model_before api m (change # changes) (Suc i) =
   model_before api (lim_edit api [translate_change api m change] no_options m) changes i"
  by (simp add: model_before_def changes_loop_Cons del: changes_loop.simps(2))

lemma submitted_nth:
  "i < length changes \<Longrightarrow>
   snd (changes_loop api changes (m, [])) ! i =
     [translate_change api (model_before api m changes i) (changes ! i)]"
proof (induction changes arbitrary: m i)
  case Nil
  then show ?case by simp
next
  case (Cons change changes)
  show ?case
  proof (cases i)
    case 0
    then show ?thesis
      by (simp add: changes_loop_Cons model_before_def del: changes_loop.simps(2))
  next
    case (Suc j)
    with Cons.prems have "j < length changes" by simp
    from Cons.IH [OF this] show ?thesis
      using Suc by (simp add: changes_loop_Cons model_before_Suc del: changes_loop.simps(2))
  qed
qed

lemma translate_change_host_offsets:
  "translate_change api m (with_host_offsets ro rl change) = translate_change api m change"
  by (simp add: translate_change_def with_host_offsets_def)

lemma changes_loop_host_offsets:
  "changes_loop api (map (with_host_offsets ro rl) changes) st = changes_loop api changes st"
proof (induction changes arbitrary: st)
  case Nil
  then show ?case by simp
next
  case (Cons change changes)
  then show ?case
    by (cases st) (simp add: translate_change_host_offsets Let_def)
qed

lemma processChanges_registered:
  assumes "documents (ident (event_document event)) = Some mirror"
  shows "processChanges api event documents =
     Inr (documents(ident (event_document event) \<mapsto>
            mirror\<lparr>model := \<lparr>lineInputModel =
              (flushChanges api
                 (fst (changes_loop api (contentChanges event) (lineInputModel (model mirror), []))))
              \<lparr>dirtyLines := [], insertedLines := {}, deletedLines := {}\<rparr>\<rparr>\<rparr>),
          snd (changes_loop api (contentChanges event) (lineInputModel (model mirror), [])))"
  using assms by (simp add: processChanges_def Let_def split: prod.splits)

lemma replace_crlf_pair:
  "replace_crlf (xs @ CHR 0x0D # CHR 0x0A # ys) = replace_crlf xs @ CHR 0x0A # replace_crlf ys"
  by (induction xs rule: replace_crlf.induct) simp_all

lemma replace_crlf_free: "crlf_free t \<Longrightarrow> replace_crlf t = t"
  by (induction t rule: replace_crlf.induct) auto

lemma core_event_registered: "core_registry (ident (event_document core_event)) = Some core_mirror"
  by (simp add: core_registry_def core_event_def core_doc_def)

lemma core_event_submitted:
  "snd (changes_loop spec_line_model (contentChanges core_event)
          (lineInputModel (model core_mirror), [])) =
   [[ChangeRange 5 6 ''a\<newline>b'' None None]]"
  by (simp add: core_event_def core_change_def core_mirror_def dirty_model_def
      translate_change_def spec_line_model_def spec_getOffsetForLine_def Let_def)

text \<open>
  C3. For the change number \<open>i\<close> of an event on a registered document, \<open>processChanges\<close>
  gives the model one replace-range edit whose start offset is the model's offset for
  the start line of the change plus the start character, and whose end offset is the
  model's offset for the end line plus the end character, the model being the line model
  as the changes before have left it. The offset and the length that the host computed
  for the change have no part in it. With the model lines abc and def, the change from
  line 1 character 1 to line 1 character 2 becomes the edit of the offsets 5 to 6.
\<close>

theorem processChanges_offsets:
  assumes "documents (ident (event_document event)) = Some mirror"
    and "i < length (contentChanges event)"
  shows "(\<exists>documents' submitted txt.
            processChanges api event documents = Inr (documents', submitted) \<and>
            length submitted = length (contentChanges event) \<and>
            submitted ! i =
              [ChangeRange
                 (getOffsetForLine api
                    (model_before api (lineInputModel (model mirror)) (contentChanges event) i)
                    (line (range_start (change_range (contentChanges event ! i))))
                  + int (character (range_start (change_range (contentChanges event ! i)))))
                 (getOffsetForLine api
                    (model_before api (lineInputModel (model mirror)) (contentChanges event) i)
                    (line (range_end (change_range (contentChanges event ! i))))
                  + int (character (range_end (change_range (contentChanges event ! i)))))
                 txt None None]) \<and>
         processChanges api
           (event\<lparr>contentChanges := map (with_host_offsets ro rl) (contentChanges event)\<rparr>)
           documents
         = processChanges api event documents \<and>
         (\<exists>documents'. processChanges spec_line_model core_event core_registry =
            Inr (documents', [[ChangeRange 5 6 ''a\<newline>b'' None None]]))"
proof -
  let ?m = "lineInputModel (model mirror)"
  let ?sub = "snd (changes_loop api (contentChanges event) (?m, []))"
  from assms(1) obtain documents' where
    run: "processChanges api event documents = Inr (documents', ?sub)"
    by (simp add: processChanges_registered)
  have len: "length ?sub = length (contentChanges event)"
    by (rule submitted_length)
  have nth: "?sub ! i =
      [translate_change api (model_before api ?m (contentChanges event) i)
         (contentChanges event ! i)]"
    using assms(2) by (rule submitted_nth)
  have first: "\<exists>documents' submitted txt.
            processChanges api event documents = Inr (documents', submitted) \<and>
            length submitted = length (contentChanges event) \<and>
            submitted ! i =
              [ChangeRange
                 (getOffsetForLine api
                    (model_before api ?m (contentChanges event) i)
                    (line (range_start (change_range (contentChanges event ! i))))
                  + int (character (range_start (change_range (contentChanges event ! i)))))
                 (getOffsetForLine api
                    (model_before api ?m (contentChanges event) i)
                    (line (range_end (change_range (contentChanges event ! i))))
                  + int (character (range_end (change_range (contentChanges event ! i)))))
                 txt None None]"
    using run len nth by (simp add: translate_change_def Let_def)
  have second: "processChanges api
           (event\<lparr>contentChanges := map (with_host_offsets ro rl) (contentChanges event)\<rparr>)
           documents
         = processChanges api event documents"
    by (simp add: processChanges_def changes_loop_host_offsets split: option.splits)
  have third: "\<exists>documents'. processChanges spec_line_model core_event core_registry =
            Inr (documents', [[ChangeRange 5 6 ''a\<newline>b'' None None]])"
    using processChanges_registered
            [where documents = core_registry and event = core_event and mirror = core_mirror
               and api = spec_line_model, OF core_event_registered]
    by (simp add: core_event_submitted)
  from first second third show ?thesis by blast
qed

theorem processChanges_offsets_witness:
  "core_registry (ident (event_document core_event)) = Some core_mirror \<and>
   0 < length (contentChanges core_event) \<and>
   (\<exists>documents' submitted txt.
      processChanges spec_line_model core_event core_registry = Inr (documents', submitted) \<and>
      length submitted = 1 \<and>
      submitted ! 0 = [ChangeRange 5 6 txt None None])"
proof -
  have h2: "0 < length (contentChanges core_event)"
    by (simp add: core_event_def)
  have m0: "model_before spec_line_model (lineInputModel (model core_mirror))
              (contentChanges core_event) 0 = dirty_model"
    by (simp add: model_before_def core_mirror_def)
  have off: "getOffsetForLine spec_line_model dirty_model (Suc 0) = 4"
    by (simp add: spec_line_model_def spec_getOffsetForLine_def dirty_model_def)
  have chg: "contentChanges core_event ! 0 = core_change"
    by (simp add: core_event_def)
  from processChanges_offsets
         [where documents = core_registry and event = core_event and mirror = core_mirror
            and i = 0 and api = spec_line_model and ro = rangeOffset and rl = rangeLength,
          OF core_event_registered h2]
  have "\<exists>documents' submitted txt.
      processChanges spec_line_model core_event core_registry = Inr (documents', submitted) \<and>
      length submitted = length (contentChanges core_event) \<and>
      submitted ! 0 = [ChangeRange (4 + 1) (4 + 2) txt None None]"
    unfolding m0 chg by (simp add: core_change_def off)
  then show ?thesis
    using core_event_registered h2 by (simp add: core_event_def)
qed

text \<open>
  C4. The edit that \<open>processChanges\<close> gives the model for a change carries the text of the
  change in which every carriage return with a line feed after it, taken from left to
  right, has become a line feed: the replacement acts on each such pair wherever it
  stands and leaves a text without such a pair as it is. The text a, CR, LF, b is
  recorded as a, LF, b.
\<close>

theorem processChanges_normalises_crlf:
  assumes "documents (ident (event_document event)) = Some mirror"
    and "i < length (contentChanges event)"
  shows "(\<exists>documents' submitted start end'.
            processChanges api event documents = Inr (documents', submitted) \<and>
            submitted ! i =
              [ChangeRange start end'
                 (replace_crlf (change_text (contentChanges event ! i))) None None]) \<and>
         replace_crlf (xs @ CHR 0x0D # CHR 0x0A # ys) =
           replace_crlf xs @ CHR 0x0A # replace_crlf ys \<and>
         (crlf_free t \<longrightarrow> replace_crlf t = t) \<and>
         replace_crlf (''a'' @ [CHR 0x0D, CHR 0x0A] @ ''b'') = ''a\<newline>b''"
proof -
  let ?m = "lineInputModel (model mirror)"
  let ?sub = "snd (changes_loop api (contentChanges event) (?m, []))"
  from assms(1) obtain documents' where
    run: "processChanges api event documents = Inr (documents', ?sub)"
    by (simp add: processChanges_registered)
  have nth: "?sub ! i =
      [translate_change api (model_before api ?m (contentChanges event) i)
         (contentChanges event ! i)]"
    using assms(2) by (rule submitted_nth)
  have first: "\<exists>documents' submitted start end'.
            processChanges api event documents = Inr (documents', submitted) \<and>
            submitted ! i =
              [ChangeRange start end'
                 (replace_crlf (change_text (contentChanges event ! i))) None None]"
    using run nth by (simp add: translate_change_def Let_def)
  have example: "replace_crlf (''a'' @ [CHR 0x0D, CHR 0x0A] @ ''b'') = ''a\<newline>b''"
    by simp
  have pair: "replace_crlf (xs @ CHR 0x0D # CHR 0x0A # ys) =
      replace_crlf xs @ CHR 0x0A # replace_crlf ys"
    by (rule replace_crlf_pair)
  have free: "crlf_free t \<longrightarrow> replace_crlf t = t"
    by (simp add: replace_crlf_free)
  from first pair free example show ?thesis
    by (intro conjI)
qed

theorem processChanges_normalises_crlf_witness:
  "core_registry (ident (event_document core_event)) = Some core_mirror \<and>
   0 < length (contentChanges core_event) \<and>
   change_text (contentChanges core_event ! 0) = ''a'' @ [CHR 0x0D, CHR 0x0A] @ ''b'' \<and>
   (\<exists>documents' submitted start end'.
      processChanges spec_line_model core_event core_registry = Inr (documents', submitted) \<and>
      submitted ! 0 = [ChangeRange start end' ''a\<newline>b'' None None]) \<and>
   crlf_free ''(def x 1)'' \<and> replace_crlf ''(def x 1)'' = ''(def x 1)''"
proof -
  have h2: "0 < length (contentChanges core_event)"
    by (simp add: core_event_def)
  have ctext: "change_text (contentChanges core_event ! 0) = ''a'' @ [CHR 0x0D, CHR 0x0A] @ ''b''"
    by (simp add: core_event_def core_change_def)
  have free: "crlf_free ''(def x 1)''"
    by simp
  note inst = processChanges_normalises_crlf
         [where documents = core_registry and event = core_event and mirror = core_mirror
            and i = 0 and api = spec_line_model and t = "''(def x 1)''" and xs = "[]" and ys = "[]",
          OF core_event_registered h2]
  from inst have "\<exists>documents' submitted start end'.
      processChanges spec_line_model core_event core_registry = Inr (documents', submitted) \<and>
      submitted ! 0 =
        [ChangeRange start end'
           (replace_crlf (change_text (contentChanges core_event ! 0))) None None]"
    by (rule conjunct1)
  then have sub: "\<exists>documents' submitted start end'.
      processChanges spec_line_model core_event core_registry = Inr (documents', submitted) \<and>
      submitted ! 0 = [ChangeRange start end' ''a\<newline>b'' None None]"
    unfolding ctext by simp
  from inst free have "replace_crlf ''(def x 1)'' = ''(def x 1)''"
    by blast
  with core_event_registered h2 ctext sub free show ?thesis
    by blast
qed

text \<open>
  C7. After \<open>processChanges\<close> on a registered document, whatever the line model does in
  its edits and its flush and whatever the three collections held before, the dirty-line
  list, the inserted-line set and the deleted-line set of the document's model are
  empty.
\<close>

theorem processChanges_clears_repaint_data:
  assumes "documents (ident (event_document event)) = Some mirror"
  shows "\<exists>documents' submitted mirror'.
           processChanges api event documents = Inr (documents', submitted) \<and>
           documents' (ident (event_document event)) = Some mirror' \<and>
           dirtyLines (lineInputModel (model mirror')) = [] \<and>
           insertedLines (lineInputModel (model mirror')) = {} \<and>
           deletedLines (lineInputModel (model mirror')) = {}"
  using assms by (simp add: processChanges_registered)

theorem processChanges_clears_repaint_data_witness:
  "core_registry (ident (event_document core_event)) = Some core_mirror \<and>
   dirtyLines (lineInputModel (model core_mirror)) = [0, 1] \<and>
   insertedLines (lineInputModel (model core_mirror)) = {1} \<and>
   deletedLines (lineInputModel (model core_mirror)) = {2, 3} \<and>
   (\<exists>documents' submitted mirror'.
      processChanges spec_line_model core_event core_registry = Inr (documents', submitted) \<and>
      documents' (ident (event_document core_event)) = Some mirror' \<and>
      dirtyLines (lineInputModel (model mirror')) = [] \<and>
      insertedLines (lineInputModel (model mirror')) = {} \<and>
      deletedLines (lineInputModel (model mirror')) = {})"
proof -
  have before: "dirtyLines (lineInputModel (model core_mirror)) = [0, 1]"
    "insertedLines (lineInputModel (model core_mirror)) = {1}"
    "deletedLines (lineInputModel (model core_mirror)) = {2, 3}"
    by (simp_all add: core_mirror_def dirty_model_def)
  from processChanges_clears_repaint_data
         [where documents = core_registry and event = core_event and mirror = core_mirror
            and api = spec_line_model, OF core_event_registered]
  show ?thesis using core_event_registered before by blast
qed

text \<open>
  The handler of the change events calls \<open>processChanges\<close> only for a document that the
  registry has: it never meets the TypeError.
\<close>

lemma change_handler_finds_mirror:
  "onDidChangeTextDocument api e documents \<noteq> Inl TypeError"
  by (auto simp: onDidChangeTextDocument_def addDocument_def processChanges_def Let_def
      split: prod.splits option.splits if_splits)

subsection \<open>\<open>MirroredDocument.insertString\<close>\<close>

lemma offset_from_le: "offset_from t l c \<le> length t"
  by (induction t l c rule: offset_from.induct) auto

lemma position_from_mono:
  "position_from t n l c = Position L C \<Longrightarrow> l \<le> L \<and> (L = l \<longrightarrow> c \<le> C)"
proof (induction t n l c rule: position_from.induct)
  case (1 n l c)
  then show ?case by simp
next
  case (2 x xs l c)
  then show ?case by simp
next
  case (3 x xs n l c)
  then show ?case by (auto split: if_splits)
qed

text \<open>
  On the host buffer of the model, the offset of the position of an offset is that
  offset, taken into the text.
\<close>

lemma offset_of_position_from:
  "position_from t n l c = Position L C \<Longrightarrow>
   offset_from t (L - l) (if L = l then C - c else C) = min n (length t)"
proof (induction t n l c rule: position_from.induct)
  case (1 n l c)
  then show ?case by simp
next
  case (2 x xs l c)
  then show ?case by simp
next
  case (3 x xs n l c)
  show ?case
  proof (cases "x = CHR 0x0A")
    case True
    with 3 have p: "position_from xs n (Suc l) 0 = Position L C" by simp
    from position_from_mono [OF p] have "Suc l \<le> L" by simp
    then obtain j where j: "L - l = Suc j" "L - Suc l = j" "L \<noteq> l"
      by (cases "L - l") auto
    from "3.IH"(1) [OF True p] have "offset_from xs j C = min n (length xs)"
      using j by (simp split: if_splits)
    then show ?thesis using True j by simp
  next
    case False
    with 3 have p: "position_from xs n l (Suc c) = Position L C" by simp
    from position_from_mono [OF p] have m: "l \<le> L" "L = l \<longrightarrow> Suc c \<le> C" by simp_all
    from "3.IH"(2) [OF False p]
    have ih: "offset_from xs (L - l) (if L = l then C - Suc c else C) = min n (length xs)" .
    show ?thesis
    proof (cases "L = l")
      case True
      with m obtain k where k: "C - c = Suc k" "C - Suc c = k" by (cases "C - c") auto
      then show ?thesis using ih True False by simp
    next
      case neq: False
      with m obtain j where j: "L - l = Suc j" by (cases "L - l") auto
      then show ?thesis using ih neq False by simp
    qed
  qed
qed

lemma spec_offset_of_position:
  "spec_offsetAt doc (spec_positionAt doc (int k)) = int (min k (length (getText doc)))"
proof -
  obtain L C where p: "position_from (getText doc) k 0 0 = Position L C"
    by (cases "position_from (getText doc) k 0 0") auto
  from offset_of_position_from [OF p] show ?thesis
    by (simp add: spec_offsetAt_def spec_positionAt_def p split: if_splits)
qed

lemma insertString_spec_text:
  "getText (editor_document (insertString spec_vscode txt editor)) =
     take (nat (spec_offsetAt (editor_document editor) (anchor (editor_selection editor))))
       (getText (editor_document editor))
     @ txt
     @ drop (nat (spec_offsetAt (editor_document editor) (anchor (editor_selection editor))))
         (getText (editor_document editor))"
proof -
  let ?doc = "editor_document editor"
  let ?k = "offset_from (getText ?doc) (line (anchor (editor_selection editor)))
              (character (anchor (editor_selection editor)))"
  have k: "spec_offsetAt ?doc (anchor (editor_selection editor)) = int ?k"
    by (simp add: spec_offsetAt_def)
  have rt: "spec_offsetAt ?doc (spec_positionAt ?doc (int ?k)) = int ?k"
    by (simp add: spec_offset_of_position offset_from_le min_absorb1)
  show ?thesis
    by (simp add: insertString_def selectionLeft_def spec_vscode_def spec_applyEdit_def
        Let_def k rt splice_def)
qed

text \<open>
  C9. \<open>insertString\<close> hands the host one workspace edit, the insertion of the text at the
  position of the anchor offset of the current selection, and then sets the selection of
  the editor to the selection it had before, whatever the host did to it: the selection
  after the operation is the selection before it. On the host buffer of the model, the
  text afterwards is the text before with the inserted text at the anchor offset.
\<close>

theorem insertString_restores_selection:
  "editor_selection (insertString vs txt editor) = editor_selection editor \<and>
   insertString vs txt editor =
     (fst (applyEdit vs
             [(uri (editor_document editor),
               [TextEdit_insert
                  (positionAt vs (editor_document editor)
                     (offsetAt vs (editor_document editor) (anchor (editor_selection editor))))
                  txt])]
             editor))
     \<lparr>editor_selection := editor_selection editor\<rparr> \<and>
   getText (editor_document (insertString spec_vscode txt editor)) =
     take (nat (spec_offsetAt (editor_document editor) (anchor (editor_selection editor))))
       (getText (editor_document editor))
     @ txt
     @ drop (nat (spec_offsetAt (editor_document editor) (anchor (editor_selection editor))))
         (getText (editor_document editor)) \<and>
   editor_selection (fst (applyEdit spec_vscode
       [(uri core_doc, [TextEdit_insert (Position 0 1) ''hello''])] core_editor))
     = Selection (Position 0 6) (Position 0 6) \<and>
   insertString spec_vscode ''hello'' core_editor =
     core_editor\<lparr>editor_document := core_doc\<lparr>getText := ''ahellobc\<newline>def''\<rparr>\<rparr>"
proof -
  have sel: "editor_selection (insertString vs txt editor) = editor_selection editor"
    by (simp add: insertString_def Let_def split: prod.splits)
  have call: "insertString vs txt editor =
     (fst (applyEdit vs
             [(uri (editor_document editor),
               [TextEdit_insert
                  (positionAt vs (editor_document editor)
                     (offsetAt vs (editor_document editor) (anchor (editor_selection editor))))
                  txt])]
             editor))
     \<lparr>editor_selection := editor_selection editor\<rparr>"
    by (simp add: insertString_def selectionLeft_def Let_def split: prod.splits)
  have moved: "editor_selection (fst (applyEdit spec_vscode
       [(uri core_doc, [TextEdit_insert (Position 0 1) ''hello''])] core_editor))
     = Selection (Position 0 6) (Position 0 6)"
    by (simp add: spec_vscode_def spec_applyEdit_def core_editor_def core_doc_def
        spec_offsetAt_def spec_positionAt_def splice_def Let_def eval_nat_numeral)
  have example: "insertString spec_vscode ''hello'' core_editor =
     core_editor\<lparr>editor_document := core_doc\<lparr>getText := ''ahellobc\<newline>def''\<rparr>\<rparr>"
    by (simp add: insertString_def selectionLeft_def spec_vscode_def spec_applyEdit_def
        core_editor_def core_doc_def spec_offsetAt_def spec_positionAt_def splice_def Let_def)
  from sel call insertString_spec_text moved example show ?thesis
    by (intro conjI)
qed

subsection \<open>\<open>addDocument\<close>\<close>

lemma addDocument_keeps_mirror:
  "documents k = Some mirror \<Longrightarrow> fst (addDocument api doc documents) k = Some mirror"
  by (auto simp: addDocument_def Let_def split: option.splits)

lemma addDocument_new:
  "languageId d = ''clojure'' \<Longrightarrow> documents (ident d) = None \<Longrightarrow>
   addDocument api (Some d) documents = (documents(ident d \<mapsto> seeded_mirror api d), False)"
  by (simp add: addDocument_def new_MirroredDocument_def seeded_mirror_def Let_def)

lemma addDocument_known:
  "languageId d = ''clojure'' \<Longrightarrow> documents (ident d) = Some mirror \<Longrightarrow>
   addDocument api (Some d) documents = (documents, True)"
  by (simp add: addDocument_def)

lemma addDocument_untracked:
  "languageId u \<noteq> ''clojure'' \<Longrightarrow> addDocument api (Some u) documents = (documents, False)"
  by (simp add: addDocument_def)

text \<open>
  C5. For a document of the language clojure that the registry does not have, be the
  registry empty or not, \<open>addDocument\<close> stores a mirror whose line model is a new one,
  seeded with the full text of the document by one insertion at offset 0, and returns
  false. A later call with the same document identity returns true and leaves the
  registry as it is, and no call replaces a mirror that the registry has: there is one
  mirror for each identity. For a document of another language, or no document, it
  returns false and leaves the registry as it is.
\<close>

theorem addDocument_registers_once:
  assumes "languageId d = ''clojure''" and "documents (ident d) = None"
    and "ident d' = ident d" and "languageId d' = ''clojure''"
    and "languageId u \<noteq> ''clojure''"
  shows "addDocument api (Some d) documents =
           (documents(ident d \<mapsto> seeded_mirror api d), False) \<and>
         lineInputModel (model (seeded_mirror api d)) =
           lim_insertString api 0 (getText d)
             (new_LineInputModel api (if eol d = CRLF then 2 else 1)) \<and>
         document (seeded_mirror api d) = d \<and>
         addDocument api (Some d') (fst (addDocument api (Some d) documents)) =
           (fst (addDocument api (Some d) documents), True) \<and>
         (\<forall>k mirror doc. documents k = Some mirror \<longrightarrow>
            fst (addDocument api doc documents) k = Some mirror) \<and>
         addDocument api (Some u) documents = (documents, False) \<and>
         addDocument api None documents = (documents, False)"
proof -
  have first: "addDocument api (Some d) documents =
      (documents(ident d \<mapsto> seeded_mirror api d), False)"
    using assms(1,2) by (rule addDocument_new)
  have "(documents(ident d \<mapsto> seeded_mirror api d)) (ident d') = Some (seeded_mirror api d)"
    using assms(3) by simp
  with assms(4) have "addDocument api (Some d') (documents(ident d \<mapsto> seeded_mirror api d)) =
      (documents(ident d \<mapsto> seeded_mirror api d), True)"
    by (rule addDocument_known)
  then have again: "addDocument api (Some d') (fst (addDocument api (Some d) documents)) =
      (fst (addDocument api (Some d) documents), True)"
    by (simp add: first)
  have seeded: "lineInputModel (model (seeded_mirror api d)) =
      lim_insertString api 0 (getText d)
        (new_LineInputModel api (if eol d = CRLF then 2 else 1))"
    and owner: "document (seeded_mirror api d) = d"
    by (simp_all add: seeded_mirror_def)
  have kept: "\<forall>k mirror doc. documents k = Some mirror \<longrightarrow>
      fst (addDocument api doc documents) k = Some mirror"
    by (simp add: addDocument_keeps_mirror)
  have other: "addDocument api (Some u) documents = (documents, False)"
    using assms(5) by (rule addDocument_untracked)
  have none: "addDocument api None documents = (documents, False)"
    by (simp add: addDocument_def)
  from first seeded owner again kept other none show ?thesis
    by (intro conjI)
qed

text \<open>
  The witness registers the document in the empty registry, the registry of line 8,
  and in a registry that has the mirror of another document.
\<close>

theorem addDocument_registers_once_witness:
  "languageId core_doc = ''clojure'' \<and> (Map.empty :: registry) (ident core_doc) = None \<and>
   other_registry (ident core_doc) = None \<and>
   ident core_doc_later = ident core_doc \<and> languageId core_doc_later = ''clojure'' \<and>
   getText core_doc_later \<noteq> getText core_doc \<and>
   languageId readme_doc \<noteq> ''clojure'' \<and> other_registry 3 = Some core_mirror \<and>
   addDocument spec_line_model (Some core_doc) Map.empty =
     ([ident core_doc \<mapsto> seeded_mirror spec_line_model core_doc], False) \<and>
   model_lines (lineInputModel (model (seeded_mirror spec_line_model core_doc))) =
     [''abc'', ''def''] \<and>
   addDocument spec_line_model (Some core_doc_later)
       (fst (addDocument spec_line_model (Some core_doc) Map.empty)) =
     (fst (addDocument spec_line_model (Some core_doc) Map.empty), True) \<and>
   addDocument spec_line_model (Some readme_doc) Map.empty = (Map.empty, False) \<and>
   addDocument spec_line_model None Map.empty = (Map.empty, False) \<and>
   snd (addDocument spec_line_model (Some core_doc) other_registry) = False \<and>
   fst (addDocument spec_line_model (Some core_doc) other_registry) 3 = Some core_mirror"
proof -
  have h1: "languageId core_doc = ''clojure''"
    and h2: "other_registry (ident core_doc) = None"
    and h2e: "(Map.empty :: registry) (ident core_doc) = None"
    and h3: "ident core_doc_later = ident core_doc"
    and h4: "languageId core_doc_later = ''clojure''"
    and h5: "languageId readme_doc \<noteq> ''clojure''"
    and h6: "other_registry 3 = Some core_mirror"
    and changed: "getText core_doc_later \<noteq> getText core_doc"
    by (simp_all add: core_doc_def core_doc_later_def readme_doc_def other_registry_def)
  note empty = addDocument_registers_once
    [where api = spec_line_model and documents = Map.empty, OF h1 h2e h3 h4 h5]
  note other = addDocument_registers_once
    [where api = spec_line_model and documents = other_registry, OF h1 h2 h3 h4 h5]
  from empty have first: "addDocument spec_line_model (Some core_doc) Map.empty =
     ([ident core_doc \<mapsto> seeded_mirror spec_line_model core_doc], False)"
    by blast
  from empty have "lineInputModel (model (seeded_mirror spec_line_model core_doc)) =
      lim_insertString spec_line_model 0 (getText core_doc)
        (new_LineInputModel spec_line_model (if eol core_doc = CRLF then 2 else 1))"
    by blast
  then have seeded: "model_lines (lineInputModel (model (seeded_mirror spec_line_model core_doc))) =
      [''abc'', ''def'']"
    by (simp add: spec_line_model_def core_doc_def spec_changeRange_def line_at_def)
  from empty have again: "addDocument spec_line_model (Some core_doc_later)
       (fst (addDocument spec_line_model (Some core_doc) Map.empty)) =
     (fst (addDocument spec_line_model (Some core_doc) Map.empty), True)"
    by blast
  from empty have untracked: "addDocument spec_line_model (Some readme_doc) Map.empty =
      (Map.empty, False)"
    by blast
  from empty have none: "addDocument spec_line_model None Map.empty = (Map.empty, False)"
    by blast
  from other have "addDocument spec_line_model (Some core_doc) other_registry =
      (other_registry(ident core_doc \<mapsto> seeded_mirror spec_line_model core_doc), False)"
    by blast
  then have first_other: "snd (addDocument spec_line_model (Some core_doc) other_registry) = False"
    by simp
  from other have "\<forall>k mirror doc. other_registry k = Some mirror \<longrightarrow>
      fst (addDocument spec_line_model doc other_registry) k = Some mirror"
    by blast
  with h6 have kept: "fst (addDocument spec_line_model (Some core_doc) other_registry) 3 =
      Some core_mirror"
    by blast
  from h1 h2e h2 h3 h4 changed h5 h6 first seeded again untracked none first_other kept
  show ?thesis
    by (intro conjI)
qed

end
